theory Spec2Isabelle
  imports Complex_Main
begin

section \<open>JavaScript values used by the request handlers of \<^verbatim>\<open>src/index.js\<close>\<close>

text \<open>
  The three handlers (\<^verbatim>\<open>/analyze\<close>, \<^verbatim>\<open>/graph\<close>, \<^verbatim>\<open>/jeeter\<close>) read query
  parameters, convert them with the built-ins \<^verbatim>\<open>String\<close>, \<^verbatim>\<open>Number\<close>,
  \<^verbatim>\<open>Math.max\<close>, \<^verbatim>\<open>Math.min\<close>, \<^verbatim>\<open>trim\<close> and \<^verbatim>\<open>toLowerCase\<close>, call imported
  service functions and build a JSON body. This section models the built-ins.

  A JavaScript number is \<^verbatim>\<open>NaN\<close>, an infinity or a finite value \<open>Fin r\<close> with \<open>r\<close>
  rational; the two zeros are identified (they compare equal, \<^verbatim>\<open>Math.max(0, -0)\<close>
  is \<^verbatim>\<open>0\<close> and both serialise as \<^verbatim>\<open>0\<close>).
\<close>

datatype jsnum = NaN | PosInf | NegInf | Fin rat

fun isFinite :: "jsnum \<Rightarrow> bool" where
  "isFinite (Fin r) = True"
| "isFinite _ = False"

text \<open>\<^verbatim>\<open>Math.max\<close> and \<^verbatim>\<open>Math.min\<close> of two arguments: \<^verbatim>\<open>NaN\<close> is contagious.\<close>

fun Math_max :: "jsnum \<Rightarrow> jsnum \<Rightarrow> jsnum" where
  "Math_max NaN _ = NaN"
| "Math_max _ NaN = NaN"
| "Math_max PosInf _ = PosInf"
| "Math_max _ PosInf = PosInf"
| "Math_max NegInf y = y"
| "Math_max x NegInf = x"
| "Math_max (Fin a) (Fin b) = Fin (max a b)"

fun Math_min :: "jsnum \<Rightarrow> jsnum \<Rightarrow> jsnum" where
  "Math_min NaN _ = NaN"
| "Math_min _ NaN = NaN"
| "Math_min NegInf _ = NegInf"
| "Math_min _ NegInf = NegInf"
| "Math_min PosInf y = y"
| "Math_min x PosInf = x"
| "Math_min (Fin a) (Fin b) = Fin (min a b)"

fun js_neg :: "jsnum \<Rightarrow> jsnum" where
  "js_neg NaN = NaN"
| "js_neg PosInf = NegInf"
| "js_neg NegInf = PosInf"
| "js_neg (Fin r) = Fin (- r)"

subsection \<open>From the mathematical value of a literal to a number\<close>

definition pow10 :: "int \<Rightarrow> rat" where
  "pow10 e = (if 0 \<le> e then 10 ^ nat e else 1 / 10 ^ nat (- e))"

text \<open>
  A numeric literal denotes a mathematical value, which is then rounded to the nearest
  binary64 number. Overflow is modelled: a value of magnitude at least
  \<open>2 ^ 1024 - 2 ^ 970\<close> (half a unit in the last place above the largest finite double)
  becomes an infinity. The rounding of the remaining values to 53 significant bits is not
  modelled, \<open>Fin\<close> keeps the mathematical value: that rounding is monotone and leaves
  \<open>0\<close>, \<open>1\<close>, \<open>5\<close>, \<open>10\<close>, \<open>200\<close> and \<open>500\<close> fixed, so no comparison made by the
  handlers depends on it.
\<close>

definition to_double :: "rat \<Rightarrow> jsnum" where
  "to_double r =
     (if 2 ^ 1024 - 2 ^ 970 \<le> \<bar>r\<bar> then (if r < 0 then NegInf else PosInf) else Fin r)"

subsection \<open>Strings\<close>

text \<open>
  Strings are lists of code units, here restricted to the Latin-1 range that a
  \<^typ>\<open>char\<close> holds. The white space of \<^verbatim>\<open>trim\<close> and of the string-to-number grammar
  in this range is TAB, LF, VT, FF, CR, SP and NBSP.
\<close>

definition is_ws :: "char \<Rightarrow> bool" where
  "is_ws c = ((of_char c :: nat) \<in> {9, 10, 11, 12, 13, 32, 160})"

definition trim :: "string \<Rightarrow> string" where
  "trim s = rev (dropWhile is_ws (rev (dropWhile is_ws s)))"

definition lower_char :: "char \<Rightarrow> char" where
  "lower_char c =
     (let n = (of_char c :: nat)
      in if (65 \<le> n \<and> n \<le> 90) \<or> (192 \<le> n \<and> n \<le> 222 \<and> n \<noteq> 215)
         then char_of (n + 32) else c)"

definition toLowerCase :: "string \<Rightarrow> string" where
  "toLowerCase s = map lower_char s"

subsection \<open>\<^verbatim>\<open>Number(v)\<close> on a query value\<close>

definition digit_of :: "char \<Rightarrow> nat option" where
  "digit_of c =
     (let n = (of_char c :: nat)
      in if 48 \<le> n \<and> n \<le> 57 then Some (n - 48)
         else if 97 \<le> n \<and> n \<le> 102 then Some (n - 87)
         else if 65 \<le> n \<and> n \<le> 70 then Some (n - 55)
         else None)"

fun digits_in :: "nat \<Rightarrow> string \<Rightarrow> nat \<Rightarrow> nat option" where
  "digits_in b [] acc = Some acc"
| "digits_in b (c # cs) acc =
     (case digit_of c of
        None \<Rightarrow> None
      | Some d \<Rightarrow> if d < b then digits_in b cs (b * acc + d) else None)"

text \<open>A non-empty run of digits of base \<open>b\<close>, and nothing else.\<close>

definition nat_lit :: "nat \<Rightarrow> string \<Rightarrow> nat option" where
  "nat_lit b s = (if s = [] then None else digits_in b s 0)"

text \<open>Split at the first character satisfying \<open>P\<close>; \<open>None\<close> when there is none.\<close>

definition split_at :: "(char \<Rightarrow> bool) \<Rightarrow> string \<Rightarrow> string \<times> string option" where
  "split_at P s =
     (case dropWhile (\<lambda>c. \<not> P c) s of
        [] \<Rightarrow> (s, None)
      | c # r \<Rightarrow> (takeWhile (\<lambda>c. \<not> P c) s, Some r))"

text \<open>The exponent after \<^verbatim>\<open>e\<close> or \<^verbatim>\<open>E\<close>: an optional sign and at least one digit.\<close>

definition exponent_part :: "string \<Rightarrow> int option" where
  "exponent_part s =
     (if s \<noteq> [] \<and> hd s = CHR ''+'' then map_option int (nat_lit 10 (tl s))
      else if s \<noteq> [] \<and> hd s = CHR ''-'' then map_option (\<lambda>n. - int n) (nat_lit 10 (tl s))
      else map_option int (nat_lit 10 s))"

text \<open>
  \<^verbatim>\<open>DecimalDigits . DecimalDigits?\<close>, \<^verbatim>\<open>. DecimalDigits\<close> or \<^verbatim>\<open>DecimalDigits\<close>,
  as its mathematical value.
\<close>

definition mantissa :: "string \<Rightarrow> rat option" where
  "mantissa s =
     (case split_at (\<lambda>c. c = CHR ''.'') s of
        (ip, None) \<Rightarrow> map_option of_nat (nat_lit 10 ip)
      | (ip, Some fp) \<Rightarrow>
          if ip = [] \<and> fp = [] then None
          else (case (digits_in 10 ip 0, digits_in 10 fp 0) of
                  (Some i, Some f) \<Rightarrow> Some (of_nat i + of_nat f / 10 ^ length fp)
                | _ \<Rightarrow> None))"

definition unsigned_decimal :: "string \<Rightarrow> jsnum" where
  "unsigned_decimal s =
     (if s = ''Infinity'' then PosInf
      else (case split_at (\<lambda>c. c = CHR ''e'' \<or> c = CHR ''E'') s of
              (m, None) \<Rightarrow> (case mantissa m of None \<Rightarrow> NaN | Some r \<Rightarrow> to_double r)
            | (m, Some ex) \<Rightarrow>
                (case (mantissa m, exponent_part ex) of
                   (Some r, Some k) \<Rightarrow> to_double (r * pow10 k)
                 | _ \<Rightarrow> NaN)))"

definition radix_literal :: "nat \<Rightarrow> string \<Rightarrow> jsnum" where
  "radix_literal b s = (case nat_lit b s of None \<Rightarrow> NaN | Some n \<Rightarrow> to_double (of_nat n))"

text \<open>
  The conversion of a string to a number: surrounding white space is dropped, the empty
  string is \<open>0\<close>, an unsigned \<^verbatim>\<open>0x\<close>, \<^verbatim>\<open>0o\<close> or \<^verbatim>\<open>0b\<close> literal is read in its
  radix, a decimal literal may carry a sign, and anything else is \<^verbatim>\<open>NaN\<close>.
\<close>

definition StringToNumber :: "string \<Rightarrow> jsnum" where
  "StringToNumber str =
     (let s = trim str
      in if s = [] then Fin 0
         else if take 2 s = ''0x'' \<or> take 2 s = ''0X'' then radix_literal 16 (drop 2 s)
         else if take 2 s = ''0o'' \<or> take 2 s = ''0O'' then radix_literal 8 (drop 2 s)
         else if take 2 s = ''0b'' \<or> take 2 s = ''0B'' then radix_literal 2 (drop 2 s)
         else if hd s = CHR ''+'' then unsigned_decimal (tl s)
         else if hd s = CHR ''-'' then js_neg (unsigned_decimal (tl s))
         else unsigned_decimal s)"

text \<open>
  A query value \<^verbatim>\<open>req.query.k\<close> is absent (\<^verbatim>\<open>undefined\<close>, \<open>None\<close>) or a string:
  the key is given at most once. (Repeated or bracketed keys, which a query parser may turn
  into arrays and objects, are outside the model.) \<^verbatim>\<open>Number(undefined)\<close> is
  \<^verbatim>\<open>NaN\<close>.
\<close>

definition js_Number :: "string option \<Rightarrow> jsnum" where
  "js_Number v = (case v of None \<Rightarrow> NaN | Some s \<Rightarrow> StringToNumber s)"

text \<open>\<^verbatim>\<open>String(v || d)\<close>: the absent value and the empty string are falsy.\<close>

definition or_default :: "string option \<Rightarrow> string \<Rightarrow> string" where
  "or_default v d = (case v of None \<Rightarrow> d | Some s \<Rightarrow> if s = [] then d else s)"

section \<open>Parameter normalisation\<close>

text \<open>
  \<^verbatim>\<open>const num = (v, d) => { const n = Number(v); return Number.isFinite(n) ? n : d; };\<close>
\<close>

definition num :: "string option \<Rightarrow> jsnum \<Rightarrow> jsnum" where
  "num v d = (let n = js_Number v in if isFinite n then n else d)"

record query =
  q_chain :: "string option"
  q_token :: "string option"
  q_center :: "string option"
  q_fast :: "string option"
  q_window :: "string option"
  q_span :: "string option"
  q_delay :: "string option"

text \<open>The six derived values, written identically at the head of each handler.\<close>

definition chainKey_of :: "query \<Rightarrow> string" where
  "chainKey_of q = toLowerCase (or_default (q_chain q) ''base'')"

definition token_of :: "query \<Rightarrow> string" where
  "token_of q = trim (or_default (q_token q) [])"

definition center_of :: "query \<Rightarrow> string" where
  "center_of q = toLowerCase (trim (or_default (q_center q) []))"

definition fast_of :: "query \<Rightarrow> bool" where
  "fast_of q = (or_default (q_fast q) [] = ''1'')"

definition blocks_of :: "query \<Rightarrow> jsnum" where
  "blocks_of q = num (q_window q) (Fin 200)"

definition span_of :: "query \<Rightarrow> jsnum" where
  "span_of q = Math_max (Fin 1) (Math_min (num (q_span q) (Fin 5)) (Fin 10))"

definition delay_of :: "query \<Rightarrow> jsnum" where
  "delay_of q = Math_max (Fin 0) (num (q_delay q) (Fin 500))"

section \<open>Values, service functions and effects\<close>

text \<open>
  The values exchanged with the service functions and sent by \<^verbatim>\<open>res.json\<close>. An object
  is the list of its own properties in creation order, with distinct keys; the handlers and
  the statements below read properties by name only.
\<close>

datatype jsval =
    VUndef
  | VNull
  | VBool bool
  | VNum jsnum
  | VStr string
  | VArr "jsval list"
  | VObj "(string \<times> jsval) list"

text \<open>The truth value of a value in a condition (\<^verbatim>\<open>!v\<close>, \<^verbatim>\<open>a && b\<close>).\<close>

fun truthy :: "jsval \<Rightarrow> bool" where
  "truthy VUndef = False"
| "truthy VNull = False"
| "truthy (VBool b) = b"
| "truthy (VNum n) = (n \<noteq> NaN \<and> n \<noteq> Fin 0)"
| "truthy (VStr s) = (s \<noteq> [])"
| "truthy (VArr xs) = True"
| "truthy (VObj kvs) = True"

text \<open>Defining a property in an object literal: an existing key keeps its place.\<close>

fun set_prop :: "string \<Rightarrow> jsval \<Rightarrow> (string \<times> jsval) list \<Rightarrow> (string \<times> jsval) list" where
  "set_prop k v [] = [(k, v)]"
| "set_prop k v (p # ps) = (if fst p = k then (k, v) # ps else p # set_prop k v ps)"

fun dec_string :: "nat \<Rightarrow> string" where
  "dec_string n =
     (if n < 10 then [char_of (48 + n)]
      else dec_string (n div 10) @ [char_of (48 + n mod 10)])"

declare dec_string.simps [simp del]

text \<open>
  The own enumerable properties that \<^verbatim>\<open>{...v}\<close> copies: those of an object, the indexed
  elements of an array or a string, none for any other value.
\<close>

fun own_entries :: "jsval \<Rightarrow> (string \<times> jsval) list" where
  "own_entries (VObj kvs) = kvs"
| "own_entries (VArr xs) = zip (map dec_string [0..<length xs]) xs"
| "own_entries (VStr s) = zip (map dec_string [0..<length s]) (map (\<lambda>c. VStr [c]) s)"
| "own_entries _ = []"

definition spread :: "jsval \<Rightarrow> (string \<times> jsval) list \<Rightarrow> (string \<times> jsval) list" where
  "spread v obj = foldl (\<lambda>acc kv. set_prop (fst kv) (snd kv) acc) obj (own_entries v)"

text \<open>The array index a property key denotes, if it is the decimal form of one.\<close>

definition index_of :: "string \<Rightarrow> nat option" where
  "index_of k =
     (case nat_lit 10 k of
        None \<Rightarrow> None
      | Some n \<Rightarrow> if dec_string n = k then Some n else None)"

text \<open>
  Reading a property \<^verbatim>\<open>v.k\<close> or \<^verbatim>\<open>v[k]\<close>: a TypeError (\<open>None\<close>) on \<^verbatim>\<open>undefined\<close>
  and \<^verbatim>\<open>null\<close>, \<^verbatim>\<open>undefined\<close> for a property that is not there.
\<close>

fun get_prop :: "jsval \<Rightarrow> string \<Rightarrow> jsval option" where
  "get_prop VUndef k = None"
| "get_prop VNull k = None"
| "get_prop (VObj kvs) k = Some (case map_of kvs k of None \<Rightarrow> VUndef | Some v \<Rightarrow> v)"
| "get_prop (VArr xs) k =
     Some (if k = ''length'' then VNum (Fin (of_nat (length xs)))
           else (case index_of k of
                   None \<Rightarrow> VUndef
                 | Some i \<Rightarrow> if i < length xs then xs ! i else VUndef))"
| "get_prop (VStr s) k =
     Some (if k = ''length'' then VNum (Fin (of_nat (length s)))
           else (case index_of k of
                   None \<Rightarrow> VUndef
                 | Some i \<Rightarrow> if i < length s then VStr [s ! i] else VUndef))"
| "get_prop _ k = Some VUndef"

text \<open>Optional chaining \<^verbatim>\<open>v?.k\<close>: \<^verbatim>\<open>undefined\<close> instead of the TypeError.\<close>

definition opt_get :: "jsval \<Rightarrow> string \<Rightarrow> jsval" where
  "opt_get v k = (case get_prop v k of None \<Rightarrow> VUndef | Some x \<Rightarrow> x)"

text \<open>
  A thrown value is an \<^verbatim>\<open>Error\<close> with its message, a string. (A thrown value
  without a \<^verbatim>\<open>message\<close> behaves in the handlers as one whose message is empty; a
  thrown \<^verbatim>\<open>null\<close> or \<^verbatim>\<open>undefined\<close> is outside the model.)
\<close>

datatype thrown = JsError (message: string)

text \<open>\<^verbatim>\<open>e.message || d\<close>\<close>

definition message_or :: "thrown \<Rightarrow> string \<Rightarrow> string" where
  "message_or e d = (if message e = [] then d else message e)"

text \<open>
  An entry of the registry returned by \<^verbatim>\<open>getChains()\<close>, which is not part of
  \<^verbatim>\<open>src/\<close>: the handlers read \<^verbatim>\<open>kind\<close>, \<^verbatim>\<open>rpc\<close>, \<^verbatim>\<open>explorer\<close> and
  \<^verbatim>\<open>scanKey\<close>.
\<close>

record chain =
  kind :: string
  rpc :: string
  explorer :: string
  scanKey :: jsval

type_synonym handle = nat

text \<open>
  The result of \<^verbatim>\<open>readErc20Meta\<close>, with the fields the handlers read; \<^verbatim>\<open>provider\<close>
  and \<^verbatim>\<open>iface\<close> are opaque handles that are only passed on.
\<close>

record erc20_meta =
  provider :: handle
  iface :: handle
  name :: jsval
  symbol :: jsval
  decimals :: jsval
  totalSupply :: jsval
  owner :: jsval
  ownerRenounced :: jsval

text \<open>
  The imported service functions are not part of \<^verbatim>\<open>src/\<close>; they are parameters of the
  model. An awaited call either throws (\<open>Inl\<close>) or returns a value that
  \<^verbatim>\<open>res.json\<close> can serialise; arguments are in the order of the source's argument
  objects. \<open>getChains\<close> gives the entries of the registry: the own properties of the
  object that \<^verbatim>\<open>getChains()\<close> returns, \<open>None\<close> for a key that is absent from the
  registry. \<^verbatim>\<open>BIRDEYE\<close> is the constant read from the environment.
\<close>

record services =
  getChains :: "string \<Rightarrow> chain option"
  BIRDEYE :: string
  readErc20Meta :: "string \<Rightarrow> string \<Rightarrow> thrown + erc20_meta"
  getDexScreenerPairs :: "string \<Rightarrow> thrown + jsval"
  approxTopHoldersPct ::
    "handle \<Rightarrow> handle \<Rightarrow> string \<Rightarrow> jsval \<Rightarrow> jsnum \<Rightarrow> jsnum \<Rightarrow> jsnum \<Rightarrow> thrown + jsval"
  getContractSource :: "string \<Rightarrow> string \<Rightarrow> jsval \<Rightarrow> thrown + jsval"
  buildEvmGraph ::
    "handle \<Rightarrow> string \<Rightarrow> string \<Rightarrow> jsnum \<Rightarrow> jsnum \<Rightarrow> jsnum \<Rightarrow> thrown + jsval"
  jeeterReport ::
    "string \<Rightarrow> string \<Rightarrow> handle \<Rightarrow> jsval \<Rightarrow> jsnum \<Rightarrow> jsnum \<Rightarrow> jsnum \<Rightarrow> thrown + jsval"
  looksLikeSolAddress :: "string \<Rightarrow> bool"
  analyzeSolMint :: "string \<Rightarrow> string \<Rightarrow> string \<Rightarrow> string \<Rightarrow> thrown + jsval"
  buildSolGraph :: "string \<Rightarrow> string \<Rightarrow> string \<Rightarrow> thrown + jsval"

text \<open>
  \<^verbatim>\<open>const chain = chains[chainKey]\<close> reads a property of an ordinary object, so a key that
  is absent from the registry still yields a value when it names a property of
  \<^verbatim>\<open>Object.prototype\<close>: a function, or the prototype itself for \<^verbatim>\<open>__proto__\<close>. That value
  is truthy and has no \<^verbatim>\<open>kind\<close>.
\<close>

definition object_prototype_key :: "string \<Rightarrow> bool" where
  "object_prototype_key k =
     (k \<in> set [''constructor'', ''__defineGetter__'', ''__defineSetter__'', ''hasOwnProperty'',
               ''__lookupGetter__'', ''__lookupSetter__'', ''isPrototypeOf'',
               ''propertyIsEnumerable'', ''toString'', ''valueOf'', ''__proto__'',
               ''toLocaleString''])"

datatype chain_value = NoValue | Inherited | Config chain

definition chains_at :: "services \<Rightarrow> string \<Rightarrow> chain_value" where
  "chains_at sv k =
     (case getChains sv k of
        Some c \<Rightarrow> Config c
      | None \<Rightarrow> if object_prototype_key k then Inherited else NoValue)"

text \<open>What a handler does besides answering: the awaited calls and the console lines.\<close>

datatype event =
    ReadErc20Meta string string
  | GetDexScreenerPairs string
  | ApproxTopHoldersPct handle handle string jsval jsnum jsnum jsnum
  | GetContractSource string string jsval
  | BuildEvmGraph handle string string jsnum jsnum jsnum
  | JeeterReport string string handle jsval jsnum jsnum jsnum
  | AnalyzeSolMint string string string string
  | BuildSolGraph string string string
  | ConsoleError string thrown

record response =
  status :: nat
  body :: jsval

text \<open>\<^verbatim>\<open>res.status(c).json({ ok: false, error: m })\<close> and \<^verbatim>\<open>res.json(b)\<close>\<close>

definition failure :: "nat \<Rightarrow> string \<Rightarrow> response" where
  "failure c m = \<lparr>status = c, body = VObj [(''ok'', VBool False), (''error'', VStr m)]\<rparr>"

definition json :: "jsval \<Rightarrow> response" where
  "json b = \<lparr>status = 200, body = b\<rparr>"

section \<open>The handlers\<close>

subsection \<open>\<^verbatim>\<open>/analyze\<close>\<close>

text \<open>
  Lines 61-68: when the name or the symbol is missing, one guarded lookup of the price
  pairs; every failure inside it (a throw of the service, destructuring \<^verbatim>\<open>pairs\<close> out of
  \<^verbatim>\<open>undefined\<close> or \<^verbatim>\<open>null\<close>) leaves the metadata as it is.
\<close>

definition name_fallback :: "services \<Rightarrow> string \<Rightarrow> erc20_meta \<Rightarrow> event list \<times> erc20_meta" where
  "name_fallback sv token meta =
     (if \<not> truthy (name meta) \<or> \<not> truthy (symbol meta) then
        (case getDexScreenerPairs sv token of
           Inl e \<Rightarrow> ([GetDexScreenerPairs token], meta)
         | Inr r \<Rightarrow>
             ([GetDexScreenerPairs token],
              (case get_prop r ''pairs'' of
                 None \<Rightarrow> meta
               | Some pairs \<Rightarrow>
                   let p0 = opt_get pairs ''0'';
                       baseToken = opt_get p0 ''baseToken'';
                       meta1 = (if truthy (opt_get baseToken ''name'') \<and> \<not> truthy (name meta)
                                then meta\<lparr>name := opt_get baseToken ''name''\<rparr> else meta);
                       meta2 = (if truthy (opt_get baseToken ''symbol'') \<and> \<not> truthy (symbol meta1)
                                then meta1\<lparr>symbol := opt_get baseToken ''symbol''\<rparr> else meta1)
                   in meta2)))
      else ([], meta))"

text \<open>Lines 70-80: the guarded estimate of the top holders, skipped when \<^verbatim>\<open>fast\<close>.\<close>

definition top_holders ::
  "services \<Rightarrow> bool \<Rightarrow> erc20_meta \<Rightarrow> string \<Rightarrow> jsnum \<Rightarrow> jsnum \<Rightarrow> jsnum \<Rightarrow> event list \<times> jsval" where
  "top_holders sv fast meta token blocks span' delay =
     (if \<not> fast then
        (case approxTopHoldersPct sv (provider meta) (iface meta) token (decimals meta)
                blocks span' delay of
           Inl e \<Rightarrow>
             ([ApproxTopHoldersPct (provider meta) (iface meta) token (decimals meta)
                 blocks span' delay,
               ConsoleError ''approxTopHoldersPct failed:'' e], VNull)
         | Inr v \<Rightarrow>
             ([ApproxTopHoldersPct (provider meta) (iface meta) token (decimals meta)
                 blocks span' delay], v))
      else ([], VNull))"

text \<open>Lines 82-86: the guarded lookup of the verified source and the owner.\<close>

definition contract_source ::
  "services \<Rightarrow> string \<Rightarrow> string \<Rightarrow> chain \<Rightarrow> event list \<times> jsval \<times> jsval" where
  "contract_source sv chainKey token chain =
     ([GetContractSource chainKey token (scanKey chain)],
      (case getContractSource sv chainKey token (scanKey chain) of
         Inl e \<Rightarrow> (VNull, VNull)
       | Inr src \<Rightarrow>
           (case (get_prop src ''verified'', get_prop src ''owner'') of
              (Some verified, Some owner') \<Rightarrow> (verified, owner')
            | _ \<Rightarrow> (VNull, VNull))))"

text \<open>Lines 88-101: the body of the answer for an EVM chain.\<close>

definition analysis_body ::
  "string \<Rightarrow> string \<Rightarrow> chain \<Rightarrow> erc20_meta \<Rightarrow> jsval \<Rightarrow> jsval \<Rightarrow> jsval \<Rightarrow> bool \<Rightarrow>
   jsnum \<Rightarrow> jsnum \<Rightarrow> jsnum \<Rightarrow> jsval" where
  "analysis_body chainKey token chain meta top10Pct contractVerified explorerOwner fast
     blocks span' delay =
     VObj [
       (''ok'', VBool True),
       (''facts'', VObj [
          (''chain'', VStr chainKey), (''token'', VStr token),
          (''name'', name meta), (''symbol'', symbol meta), (''decimals'', decimals meta),
          (''totalSupply'', totalSupply meta), (''owner'', owner meta),
          (''ownerRenounced'', ownerRenounced meta),
          (''lp'', VObj [(''locked'', VNull), (''locker'', VNull), (''unlockDate'', VNull)]),
          (''holders'', VObj [(''top10Pct'', top10Pct)])]),
       (''contractVerified'', contractVerified), (''explorerOwner'', explorerOwner),
       (''explorer'', VStr (explorer chain @ ''/token/'' @ token)),
       (''mode'', VStr (if fast then ''fast'' else ''standard'')),
       (''windowBlocks'', VNum blocks), (''span'', VNum span'), (''delay'', VNum delay)]"

definition analyze_evm ::
  "services \<Rightarrow> string \<Rightarrow> string \<Rightarrow> chain \<Rightarrow> bool \<Rightarrow> jsnum \<Rightarrow> jsnum \<Rightarrow> jsnum \<Rightarrow>
   event list \<times> response" where
  "analyze_evm sv chainKey token chain fast blocks span' delay =
     (case readErc20Meta sv (rpc chain) token of
        Inl e \<Rightarrow>
          ([ReadErc20Meta (rpc chain) token, ConsoleError [] e],
           failure 500 (message_or e ''Analyze failed''))
      | Inr meta0 \<Rightarrow>
          let (ev1, meta) = name_fallback sv token meta0;
              (ev2, top10Pct) = top_holders sv fast meta token blocks span' delay;
              (ev3, contractVerified, explorerOwner) = contract_source sv chainKey token chain
          in (ReadErc20Meta (rpc chain) token # ev1 @ ev2 @ ev3,
              json (analysis_body chainKey token chain meta top10Pct contractVerified
                      explorerOwner fast blocks span' delay)))"

definition analyze :: "services \<Rightarrow> query \<Rightarrow> event list \<times> response" where
  "analyze sv q =
     (let chainKey = chainKey_of q;
          token = token_of q;
          fast = fast_of q;
          blocks = blocks_of q;
          span' = span_of q;
          delay = delay_of q
      in case chains_at sv chainKey of
           NoValue \<Rightarrow> ([], failure 400 ''Unknown chain'')
         | Inherited \<Rightarrow>
             if token = [] then ([], failure 400 ''Missing token/mint'')
             else ([], failure 400 ''Unsupported chain kind'')
         | Config chain \<Rightarrow>
             if token = [] then ([], failure 400 ''Missing token/mint'')
             else if kind chain = ''evm'' then
               analyze_evm sv chainKey token chain fast blocks span' delay
             else if kind chain = ''solana'' then
               (case analyzeSolMint sv (rpc chain) token (explorer chain) (BIRDEYE sv) of
                  Inl e \<Rightarrow>
                    ([AnalyzeSolMint (rpc chain) token (explorer chain) (BIRDEYE sv),
                      ConsoleError [] e],
                     failure 500 (message_or e ''Analyze failed''))
                | Inr out \<Rightarrow>
                    ([AnalyzeSolMint (rpc chain) token (explorer chain) (BIRDEYE sv)],
                     json out))
             else ([], failure 400 ''Unsupported chain kind''))"

subsection \<open>\<^verbatim>\<open>/graph\<close>\<close>

definition empty_graph :: jsval where
  "empty_graph =
     VObj [(''fromBlock'', VNull), (''toBlock'', VNull), (''nodes'', VArr []), (''links'', VArr [])]"

text \<open>\<^verbatim>\<open>{ ok: true, ...r, windowBlocks: blocks, span, delay }\<close>\<close>

definition windowed_body :: "jsval \<Rightarrow> jsnum \<Rightarrow> jsnum \<Rightarrow> jsnum \<Rightarrow> jsval" where
  "windowed_body r blocks span' delay =
     VObj (set_prop ''delay'' (VNum delay)
            (set_prop ''span'' (VNum span')
              (set_prop ''windowBlocks'' (VNum blocks)
                (spread r [(''ok'', VBool True)]))))"

definition graph_evm ::
  "services \<Rightarrow> string \<Rightarrow> string \<Rightarrow> chain \<Rightarrow> jsnum \<Rightarrow> jsnum \<Rightarrow> jsnum \<Rightarrow> event list \<times> response" where
  "graph_evm sv token center chain blocks span' delay =
     (case readErc20Meta sv (rpc chain) token of
        Inl e \<Rightarrow>
          ([ReadErc20Meta (rpc chain) token, ConsoleError [] e],
           failure 500 (message_or e ''Graph failed''))
      | Inr meta \<Rightarrow>
          (case buildEvmGraph sv (provider meta) token center blocks span' delay of
             Inl e \<Rightarrow>
               ([ReadErc20Meta (rpc chain) token,
                 BuildEvmGraph (provider meta) token center blocks span' delay,
                 ConsoleError ''buildEvmGraph failed:'' e],
                json (windowed_body empty_graph blocks span' delay))
           | Inr graph' \<Rightarrow>
               ([ReadErc20Meta (rpc chain) token,
                 BuildEvmGraph (provider meta) token center blocks span' delay],
                json (windowed_body graph' blocks span' delay))))"

definition graph :: "services \<Rightarrow> query \<Rightarrow> event list \<times> response" where
  "graph sv q =
     (let chainKey = chainKey_of q;
          token = token_of q;
          center = center_of q;
          blocks = blocks_of q;
          span' = span_of q;
          delay = delay_of q
      in case chains_at sv chainKey of
           NoValue \<Rightarrow> ([], failure 400 ''Unknown chain'')
         | Inherited \<Rightarrow>
             if token = [] \<or> center = [] then ([], failure 400 ''Missing token/center'')
             else ([], failure 400 ''Unsupported chain kind'')
         | Config chain \<Rightarrow>
             if token = [] \<or> center = [] then ([], failure 400 ''Missing token/center'')
             else if kind chain = ''evm'' then
               graph_evm sv token center chain blocks span' delay
             else if kind chain = ''solana'' then
               (if \<not> looksLikeSolAddress sv center then ([], failure 400 ''Bad Sol address'')
                else (case buildSolGraph sv token center (BIRDEYE sv) of
                        Inl e \<Rightarrow>
                          ([BuildSolGraph token center (BIRDEYE sv), ConsoleError [] e],
                           failure 500 (message_or e ''Graph failed''))
                      | Inr g \<Rightarrow>
                          ([BuildSolGraph token center (BIRDEYE sv)],
                           json (VObj (spread g [(''ok'', VBool True)])))))
             else ([], failure 400 ''Unsupported chain kind''))"

subsection \<open>\<^verbatim>\<open>/jeeter\<close>\<close>

definition empty_report :: jsval where
  "empty_report =
     VObj [(''priceNow'', VNull), (''fromBlock'', VNull), (''toBlock'', VNull),
           (''jeeters'', VArr [])]"

definition jeeter_evm ::
  "services \<Rightarrow> string \<Rightarrow> string \<Rightarrow> chain \<Rightarrow> jsnum \<Rightarrow> jsnum \<Rightarrow> jsnum \<Rightarrow> event list \<times> response" where
  "jeeter_evm sv chainKey token chain blocks span' delay =
     (case readErc20Meta sv (rpc chain) token of
        Inl e \<Rightarrow>
          ([ReadErc20Meta (rpc chain) token, ConsoleError [] e],
           failure 500 (message_or e ''Jeeter failed''))
      | Inr meta \<Rightarrow>
          (case jeeterReport sv chainKey token (provider meta) (decimals meta)
                  blocks span' delay of
             Inl e \<Rightarrow>
               ([ReadErc20Meta (rpc chain) token,
                 JeeterReport chainKey token (provider meta) (decimals meta) blocks span' delay,
                 ConsoleError ''jeeterReport failed:'' e],
                json (windowed_body empty_report blocks span' delay))
           | Inr r \<Rightarrow>
               ([ReadErc20Meta (rpc chain) token,
                 JeeterReport chainKey token (provider meta) (decimals meta) blocks span' delay],
                json (windowed_body r blocks span' delay))))"

definition jeeter :: "services \<Rightarrow> query \<Rightarrow> event list \<times> response" where
  "jeeter sv q =
     (let chainKey = chainKey_of q;
          token = token_of q;
          blocks = blocks_of q;
          span' = span_of q;
          delay = delay_of q
      in case chains_at sv chainKey of
           NoValue \<Rightarrow> ([], failure 400 ''EVM only'')
         | Inherited \<Rightarrow> ([], failure 400 ''EVM only'')
         | Config chain \<Rightarrow>
             if kind chain \<noteq> ''evm'' then ([], failure 400 ''EVM only'')
             else jeeter_evm sv chainKey token chain blocks span' delay)"

text \<open>A property of a response body, \<^verbatim>\<open>undefined\<close> when it is not there.\<close>

definition field :: "jsval \<Rightarrow> string \<Rightarrow> jsval" where
  "field v k = opt_get v k"


section \<open>Example services and requests\<close>

text \<open>
  The entries of a registry with one EVM chain and one Solana chain, and services whose
  top-holder estimator always throws; they instantiate the statements below at concrete
  inputs.
\<close>

definition demo_chains :: "string \<Rightarrow> chain option" where
  "demo_chains k =
     (if k = ''base'' then
        Some \<lparr>kind = ''evm'', rpc = ''https://rpc.base'', explorer = ''https://basescan.org'',
              scanKey = VStr ''K''\<rparr>
      else if k = ''solana'' then
        Some \<lparr>kind = ''solana'', rpc = ''https://rpc.sol'', explorer = ''https://solscan.io'',
              scanKey = VUndef\<rparr>
      else None)"

definition demo_meta :: erc20_meta where
  "demo_meta =
     \<lparr>provider = 1, iface = 2, name = VStr ''Token'', symbol = VStr ''TKN'',
      decimals = VNum (Fin 18), totalSupply = VStr ''1000'', owner = VNull,
      ownerRenounced = VBool True\<rparr>"

definition demo_services :: services where
  "demo_services =
     \<lparr>getChains = demo_chains,
      BIRDEYE = [],
      readErc20Meta = (\<lambda>r t. Inr demo_meta),
      getDexScreenerPairs = (\<lambda>t. Inr (VObj [(''pairs'', VArr [])])),
      approxTopHoldersPct = (\<lambda>p i t d b s dl. Inl (JsError ''rate limited'')),
      getContractSource =
        (\<lambda>c t k. Inr (VObj [(''verified'', VBool True), (''owner'', VNull)])),
      buildEvmGraph = (\<lambda>p t c b s dl. Inr (VObj [(''nodes'', VArr []), (''links'', VArr [])])),
      jeeterReport = (\<lambda>c t p d b s dl. Inr (VObj [(''jeeters'', VArr [])])),
      looksLikeSolAddress = (\<lambda>a. 32 \<le> length a),
      analyzeSolMint = (\<lambda>r m e k. Inr (VObj [(''facts'', VObj [(''mint'', VStr m)])])),
      buildSolGraph = (\<lambda>m c k. Inr (VObj [(''nodes'', VArr []), (''links'', VArr [])]))\<rparr>"

definition no_query :: query where
  "no_query =
     \<lparr>q_chain = None, q_token = None, q_center = None, q_fast = None,
      q_window = None, q_span = None, q_delay = None\<rparr>"

section \<open>Properties of the parameter normalisation\<close>

lemmas num_eval = js_Number_def StringToNumber_def trim_def is_ws_def unsigned_decimal_def
  split_at_def mantissa_def nat_lit_def digit_of_def exponent_part_def radix_literal_def
  to_double_def pow10_def

lemma num_cases: "num v d = (case js_Number v of Fin r \<Rightarrow> Fin r | _ \<Rightarrow> d)"
  by (cases "js_Number v") (simp_all add: num_def)

lemma num_is_finite: "\<exists>r. num v (Fin d) = Fin r"
  by (cases "js_Number v") (simp_all add: num_def)

lemma Number_minus_five: "js_Number (Some ''-5'') = Fin (- 5)"
  by (simp add: num_eval)

lemma Number_one_and_half: "js_Number (Some ''1.5'') = Fin (3 / 2)"
  by (simp add: num_eval)

lemma Number_zero: "js_Number (Some ''0'') = Fin 0"
  by (simp add: num_eval)

lemma Number_ninety_nine: "js_Number (Some ''99'') = Fin 99"
  by (simp add: num_eval)

lemma Number_abc: "js_Number (Some ''abc'') = NaN"
  by (simp add: num_eval)

lemma Number_x: "js_Number (Some ''x'') = NaN"
  by (simp add: num_eval)

lemma three_halves_not_integer: "(3 / 2 :: rat) \<notin> \<int>"
proof
  assume "(3 / 2 :: rat) \<in> \<int>"
  then obtain k :: int where k: "(3 / 2 :: rat) = of_int k" by (auto elim: Ints_cases)
  then have "(3 :: rat) = of_int (2 * k)" by simp
  then have "(3 :: int) = 2 * k" by (metis of_int_eq_iff of_int_numeral)
  then show False by presburger
qed

text \<open>
  C2, as stated, fails: \<^verbatim>\<open>blocks = num(req.query.window, 200)\<close> is not floored at \<open>0\<close>
  and not made an integer. The query \<^verbatim>\<open>window=-5\<close> gives \<open>windowBlocks = -5\<close>, and
  \<^verbatim>\<open>window=1.5\<close> gives \<open>1.5\<close>.
\<close>

theorem windowBlocks_counterexample:
  "blocks_of (no_query\<lparr>q_window := Some ''-5''\<rparr>) = Fin (- 5)
   \<and> (- 5 :: rat) < 0
   \<and> blocks_of (no_query\<lparr>q_window := Some ''1.5''\<rparr>) = Fin (3 / 2)
   \<and> (3 / 2 :: rat) \<notin> \<int>"
  by (simp add: blocks_of_def num_def no_query_def Number_minus_five Number_one_and_half
        three_halves_not_integer)

text \<open>
  C2, amended: for every raw query input to any of the three endpoints the derived
  \<open>windowBlocks\<close> is a finite number, never \<^verbatim>\<open>NaN\<close> or an infinity: a parse that is
  not finite falls back to the default \<open>200\<close>, and a finite parsed value is passed on
  unchanged, whatever its sign and whether or not it is an integer.
\<close>

theorem windowBlocks_finite:
  "(\<exists>r. blocks_of q = Fin r)
   \<and> blocks_of q = (case js_Number (q_window q) of Fin r \<Rightarrow> Fin r | _ \<Rightarrow> Fin 200)"
  by (cases "js_Number (q_window q)") (simp_all add: blocks_of_def num_def)

text \<open>
  C3: for every raw query input to any of the three endpoints the derived \<open>span\<close> lies
  in \<open>[1, 10]\<close> and the derived \<open>delay\<close> is at least \<open>0\<close>; parses that are not finite
  fall back to the defaults (\<open>span\<close> 5, \<open>delay\<close> 500), \<^verbatim>\<open>span=0\<close> clamps to \<open>1\<close> and
  \<^verbatim>\<open>span=99\<close> clamps to \<open>10\<close>.
\<close>

theorem span_delay_normalised:
  "(\<exists>r. span_of q = Fin r \<and> 1 \<le> r \<and> r \<le> 10)
   \<and> (\<exists>r. delay_of q = Fin r \<and> 0 \<le> r)
   \<and> (\<not> isFinite (js_Number (q_span q)) \<longrightarrow> span_of q = Fin 5)
   \<and> (\<not> isFinite (js_Number (q_delay q)) \<longrightarrow> delay_of q = Fin 500)
   \<and> span_of (q\<lparr>q_span := Some ''0''\<rparr>) = Fin 1
   \<and> span_of (q\<lparr>q_span := Some ''99''\<rparr>) = Fin 10"
proof -
  obtain s where s: "num (q_span q) (Fin 5) = Fin s" using num_is_finite by blast
  obtain d where d: "num (q_delay q) (Fin 500) = Fin d" using num_is_finite by blast
  have a: "\<exists>r. span_of q = Fin r \<and> 1 \<le> r \<and> r \<le> 10"
    by (simp add: span_of_def s)
  have b: "\<exists>r. delay_of q = Fin r \<and> 0 \<le> r"
    by (simp add: delay_of_def d)
  have c: "\<not> isFinite (js_Number (q_span q)) \<longrightarrow> span_of q = Fin 5"
    by (simp add: span_of_def num_def)
  have e: "\<not> isFinite (js_Number (q_delay q)) \<longrightarrow> delay_of q = Fin 500"
    by (simp add: delay_of_def num_def)
  have f: "span_of (q\<lparr>q_span := Some ''0''\<rparr>) = Fin 1"
    by (simp add: span_of_def num_def Number_zero)
  have g: "span_of (q\<lparr>q_span := Some ''99''\<rparr>) = Fin 10"
    by (simp add: span_of_def num_def Number_ninety_nine)
  from a b c e f g show ?thesis by blast
qed

theorem span_delay_normalised_witness:
  "\<not> isFinite (js_Number (q_span (no_query\<lparr>q_span := Some ''abc'', q_delay := Some ''x''\<rparr>)))
   \<and> \<not> isFinite (js_Number (q_delay (no_query\<lparr>q_span := Some ''abc'', q_delay := Some ''x''\<rparr>)))
   \<and> span_of (no_query\<lparr>q_span := Some ''abc'', q_delay := Some ''x''\<rparr>) = Fin 5
   \<and> delay_of (no_query\<lparr>q_span := Some ''abc'', q_delay := Some ''x''\<rparr>) = Fin 500"
  using span_delay_normalised [of "no_query\<lparr>q_span := Some ''abc'', q_delay := Some ''x''\<rparr>"]
  by (simp add: Number_abc Number_x)

section \<open>Properties of the handlers\<close>

lemma field_VObj: "field (VObj kvs) k = (case map_of kvs k of None \<Rightarrow> VUndef | Some v \<Rightarrow> v)"
  by (simp add: field_def opt_get_def)

lemma map_of_set_prop: "map_of (set_prop k v kvs) = (map_of kvs)(k \<mapsto> v)"
  by (induction kvs) (auto simp: fun_eq_iff)

lemma name_fallback_events: "set (fst (name_fallback sv t m)) \<subseteq> {GetDexScreenerPairs t}"
  by (auto simp: name_fallback_def split: sum.splits option.splits)

lemma top_holders_fast: "top_holders sv True m t b s d = ([], VNull)"
  by (simp add: top_holders_def)

lemma top_holders_invoked:
  "ApproxTopHoldersPct p i t' dc b' s' d' \<in> set (fst (top_holders sv fast m t b s d))
   \<Longrightarrow> \<not> fast \<and> p = provider m \<and> i = iface m \<and> t' = t \<and> dc = decimals m
        \<and> b' = b \<and> s' = s \<and> d' = d"
  by (auto simp: top_holders_def split: if_splits sum.splits)

lemma top_holders_throws:
  "approxTopHoldersPct sv (provider m) (iface m) t (decimals m) b s d = Inl e
   \<Longrightarrow> snd (top_holders sv fast m t b s d) = VNull"
  by (simp add: top_holders_def)

lemma contract_source_events:
  "fst (contract_source sv ck t c) = [GetContractSource ck t (scanKey c)]"
  by (simp add: contract_source_def)

lemma analyze_evm_read_fails:
  "readErc20Meta sv (rpc c) t = Inl e \<Longrightarrow>
   analyze_evm sv ck t c fast b s d =
     ([ReadErc20Meta (rpc c) t, ConsoleError [] e], failure 500 (message_or e ''Analyze failed''))"
  by (simp add: analyze_evm_def)

lemma analyze_evm_read_ok:
  "readErc20Meta sv (rpc c) t = Inr m0 \<Longrightarrow>
   analyze_evm sv ck t c fast b s d =
     (ReadErc20Meta (rpc c) t # fst (name_fallback sv t m0)
        @ fst (top_holders sv fast (snd (name_fallback sv t m0)) t b s d)
        @ fst (contract_source sv ck t c),
      json (analysis_body ck t c (snd (name_fallback sv t m0))
              (snd (top_holders sv fast (snd (name_fallback sv t m0)) t b s d))
              (fst (snd (contract_source sv ck t c))) (snd (snd (contract_source sv ck t c)))
              fast b s d))"
  by (simp add: analyze_evm_def split: prod.splits)

lemma analysis_body_fields:
  "field (analysis_body ck t c m tp cv eo fast b s d) ''ok'' = VBool True
   \<and> field (field (field (analysis_body ck t c m tp cv eo fast b s d) ''facts'') ''holders'')
        ''top10Pct'' = tp
   \<and> field (analysis_body ck t c m tp cv eo fast b s d) ''mode''
        = VStr (if fast then ''fast'' else ''standard'')"
  by (simp add: analysis_body_def field_VObj)

lemma analyze_evm_status:
  "status (snd (analyze_evm sv ck t c fast b s d))
     = (case readErc20Meta sv (rpc c) t of Inl e \<Rightarrow> 500 | Inr m \<Rightarrow> 200)"
  by (cases "readErc20Meta sv (rpc c) t")
     (simp_all add: analyze_evm_read_fails analyze_evm_read_ok failure_def json_def)

lemma analyze_status:
  "status (snd (analyze sv q)) =
     (case getChains sv (chainKey_of q) of
        None \<Rightarrow> 400
      | Some c \<Rightarrow>
          if token_of q = [] then 400
          else if kind c = ''evm'' then
            (case readErc20Meta sv (rpc c) (token_of q) of Inl e \<Rightarrow> 500 | Inr m \<Rightarrow> 200)
          else if kind c = ''solana'' then
            (case analyzeSolMint sv (rpc c) (token_of q) (explorer c) (BIRDEYE sv) of
               Inl e \<Rightarrow> 500 | Inr out \<Rightarrow> 200)
          else 400)"
  by (simp add: analyze_def chains_at_def Let_def analyze_evm_status failure_def json_def
        split: option.splits sum.splits)

lemma graph_evm_status:
  "status (snd (graph_evm sv t ce c b s d))
     = (case readErc20Meta sv (rpc c) t of Inl e \<Rightarrow> 500 | Inr m \<Rightarrow> 200)"
  by (simp add: graph_evm_def failure_def json_def split: sum.splits)

lemma graph_status:
  "status (snd (graph sv q)) =
     (case getChains sv (chainKey_of q) of
        None \<Rightarrow> 400
      | Some c \<Rightarrow>
          if token_of q = [] \<or> center_of q = [] then 400
          else if kind c = ''evm'' then
            (case readErc20Meta sv (rpc c) (token_of q) of Inl e \<Rightarrow> 500 | Inr m \<Rightarrow> 200)
          else if kind c = ''solana'' then
            (if \<not> looksLikeSolAddress sv (center_of q) then 400
             else (case buildSolGraph sv (token_of q) (center_of q) (BIRDEYE sv) of
                     Inl e \<Rightarrow> 500 | Inr g \<Rightarrow> 200))
          else 400)"
  by (simp add: graph_def chains_at_def Let_def graph_evm_status failure_def json_def
        split: option.splits sum.splits)

lemma jeeter_evm_status:
  "status (snd (jeeter_evm sv ck t c b s d))
     = (case readErc20Meta sv (rpc c) t of Inl e \<Rightarrow> 500 | Inr m \<Rightarrow> 200)"
  by (simp add: jeeter_evm_def failure_def json_def split: sum.splits)

lemma jeeter_status:
  "status (snd (jeeter sv q)) =
     (case getChains sv (chainKey_of q) of
        None \<Rightarrow> 400
      | Some c \<Rightarrow>
          if kind c \<noteq> ''evm'' then 400
          else (case readErc20Meta sv (rpc c) (token_of q) of Inl e \<Rightarrow> 500 | Inr m \<Rightarrow> 200))"
  by (simp add: jeeter_def chains_at_def Let_def jeeter_evm_status failure_def split: option.splits)

lemma analyze_invoked_estimator:
  assumes "ApproxTopHoldersPct p i t dc b s d \<in> set (fst (analyze sv q))"
  shows "\<exists>c m0. getChains sv (chainKey_of q) = Some c \<and> kind c = ''evm'' \<and> token_of q \<noteq> []
           \<and> readErc20Meta sv (rpc c) (token_of q) = Inr m0 \<and> \<not> fast_of q
           \<and> p = provider (snd (name_fallback sv (token_of q) m0))
           \<and> i = iface (snd (name_fallback sv (token_of q) m0))
           \<and> t = token_of q
           \<and> dc = decimals (snd (name_fallback sv (token_of q) m0))
           \<and> b = blocks_of q \<and> s = span_of q \<and> d = delay_of q"
proof (cases "getChains sv (chainKey_of q)")
  case None
  with assms show ?thesis
    by (auto simp: analyze_def chains_at_def Let_def split: if_splits)
next
  case (Some c)
  show ?thesis
  proof (cases "token_of q \<noteq> [] \<and> kind c = ''evm''")
    case False
    with assms Some show ?thesis
      by (auto simp: analyze_def chains_at_def Let_def split: if_splits sum.splits)
  next
    case True
    show ?thesis
    proof (cases "readErc20Meta sv (rpc c) (token_of q)")
      case (Inl e)
      with assms Some True show ?thesis
        by (simp add: analyze_def chains_at_def Let_def analyze_evm_read_fails)
    next
      case (Inr m0)
      from assms Some True Inr
      have mem: "ApproxTopHoldersPct p i t dc b s d
              \<in> set (fst (name_fallback sv (token_of q) m0))
               \<union> set (fst (top_holders sv (fast_of q) (snd (name_fallback sv (token_of q) m0))
                            (token_of q) (blocks_of q) (span_of q) (delay_of q)))
               \<union> set (fst (contract_source sv (chainKey_of q) (token_of q) c))"
        by (simp add: analyze_def chains_at_def Let_def analyze_evm_read_ok)
      have "ApproxTopHoldersPct p i t dc b s d \<notin> set (fst (name_fallback sv (token_of q) m0))"
        using name_fallback_events [of sv "token_of q" m0] by auto
      moreover have "ApproxTopHoldersPct p i t dc b s d
                       \<notin> set (fst (contract_source sv (chainKey_of q) (token_of q) c))"
        by (simp add: contract_source_events)
      ultimately have "ApproxTopHoldersPct p i t dc b s d
          \<in> set (fst (top_holders sv (fast_of q) (snd (name_fallback sv (token_of q) m0))
                            (token_of q) (blocks_of q) (span_of q) (delay_of q)))"
        using mem by blast
      from top_holders_invoked [OF this] Some True Inr show ?thesis by simp
    qed
  qed
qed

text \<open>
  C1: on \<^verbatim>\<open>/analyze\<close>, if the top-holder estimator is invoked (which happens only on an
  EVM chain with \<^verbatim>\<open>fast\<close> not set) and throws, the response still has status 200,
  \<^verbatim>\<open>ok: true\<close> and \<^verbatim>\<open>holders.top10Pct === null\<close>. Moreover the status of a response
  never depends on a guarded service: replacing the price-pair lookup, the estimator and
  the source lookup of \<^verbatim>\<open>/analyze\<close>, the graph builder of \<^verbatim>\<open>/graph\<close> on an EVM chain or
  the report of \<^verbatim>\<open>/jeeter\<close> by any other behaviour, throwing included, leaves it unchanged.
\<close>

theorem estimator_failure_is_isolated:
  "(ApproxTopHoldersPct p i t dc b s d \<in> set (fst (analyze sv q))
      \<and> approxTopHoldersPct sv p i t dc b s d = Inl e
    \<longrightarrow> status (snd (analyze sv q)) = 200
        \<and> field (body (snd (analyze sv q))) ''ok'' = VBool True
        \<and> field (field (field (body (snd (analyze sv q))) ''facts'') ''holders'') ''top10Pct''
            = VNull)
   \<and> status (snd (analyze (sv\<lparr>getDexScreenerPairs := f1, approxTopHoldersPct := f2,
                               getContractSource := f3\<rparr>) q))
       = status (snd (analyze sv q))
   \<and> status (snd (graph (sv\<lparr>buildEvmGraph := f4\<rparr>) q)) = status (snd (graph sv q))
   \<and> status (snd (jeeter (sv\<lparr>jeeterReport := f5\<rparr>) q)) = status (snd (jeeter sv q))"
proof -
  have first: "status (snd (analyze sv q)) = 200
        \<and> field (body (snd (analyze sv q))) ''ok'' = VBool True
        \<and> field (field (field (body (snd (analyze sv q))) ''facts'') ''holders'') ''top10Pct''
            = VNull"
    if inv: "ApproxTopHoldersPct p i t dc b s d \<in> set (fst (analyze sv q))"
      and thr: "approxTopHoldersPct sv p i t dc b s d = Inl e"
  proof -
    from analyze_invoked_estimator [OF inv] obtain c m0 where
      c: "getChains sv (chainKey_of q) = Some c" "kind c = ''evm''" "token_of q \<noteq> []"
      and m0: "readErc20Meta sv (rpc c) (token_of q) = Inr m0"
      and args: "p = provider (snd (name_fallback sv (token_of q) m0))"
        "i = iface (snd (name_fallback sv (token_of q) m0))" "t = token_of q"
        "dc = decimals (snd (name_fallback sv (token_of q) m0))"
        "b = blocks_of q" "s = span_of q" "d = delay_of q"
      by blast
    from thr args have
      "snd (top_holders sv (fast_of q) (snd (name_fallback sv (token_of q) m0)) (token_of q)
              (blocks_of q) (span_of q) (delay_of q)) = VNull"
      by (intro top_holders_throws) simp
    with c m0 show ?thesis
      by (simp add: analyze_def chains_at_def Let_def analyze_evm_read_ok json_def analysis_body_fields)
  qed
  have second: "status (snd (analyze (sv\<lparr>getDexScreenerPairs := f1, approxTopHoldersPct := f2,
                               getContractSource := f3\<rparr>) q))
       = status (snd (analyze sv q))"
    by (simp add: analyze_status split: option.splits)
  have third: "status (snd (graph (sv\<lparr>buildEvmGraph := f4\<rparr>) q)) = status (snd (graph sv q))"
    by (simp add: graph_status split: option.splits)
  have fourth: "status (snd (jeeter (sv\<lparr>jeeterReport := f5\<rparr>) q)) = status (snd (jeeter sv q))"
    by (simp add: jeeter_status split: option.splits)
  from first second third fourth show ?thesis by blast
qed

text \<open>Evaluation of the handlers on the example services.\<close>

lemmas handler_eval =
  analyze_def graph_def jeeter_def chains_at_def object_prototype_key_def analyze_evm_def graph_evm_def jeeter_evm_def
  name_fallback_def top_holders_def contract_source_def analysis_body_def windowed_body_def
  empty_graph_def empty_report_def spread_def
  chainKey_of_def token_of_def center_of_def fast_of_def blocks_of_def span_of_def delay_of_def
  num_def js_Number_def or_default_def toLowerCase_def lower_char_def trim_def is_ws_def
  demo_services_def demo_chains_def demo_meta_def no_query_def failure_def json_def
  field_VObj Let_def

lemma demo_analyze_base:
  "analyze demo_services (no_query\<lparr>q_token := Some ''0xabc''\<rparr>) =
     ([ReadErc20Meta ''https://rpc.base'' ''0xabc'',
       ApproxTopHoldersPct 1 2 ''0xabc'' (VNum (Fin 18)) (Fin 200) (Fin 5) (Fin 500),
       ConsoleError ''approxTopHoldersPct failed:'' (JsError ''rate limited''),
       GetContractSource ''base'' ''0xabc'' (VStr ''K'')],
      json (analysis_body ''base'' ''0xabc''
              \<lparr>kind = ''evm'', rpc = ''https://rpc.base'', explorer = ''https://basescan.org'',
               scanKey = VStr ''K''\<rparr>
              demo_meta VNull (VBool True) VNull False (Fin 200) (Fin 5) (Fin 500)))"
  by (simp add: handler_eval)

theorem estimator_failure_is_isolated_witness:
  "ApproxTopHoldersPct 1 2 ''0xabc'' (VNum (Fin 18)) (Fin 200) (Fin 5) (Fin 500)
     \<in> set (fst (analyze demo_services (no_query\<lparr>q_token := Some ''0xabc''\<rparr>)))
   \<and> approxTopHoldersPct demo_services 1 2 ''0xabc'' (VNum (Fin 18)) (Fin 200) (Fin 5) (Fin 500)
       = Inl (JsError ''rate limited'')
   \<and> status (snd (analyze demo_services (no_query\<lparr>q_token := Some ''0xabc''\<rparr>))) = 200
   \<and> field (body (snd (analyze demo_services (no_query\<lparr>q_token := Some ''0xabc''\<rparr>)))) ''ok''
       = VBool True
   \<and> field (field (field (body (snd (analyze demo_services
        (no_query\<lparr>q_token := Some ''0xabc''\<rparr>)))) ''facts'') ''holders'') ''top10Pct'' = VNull"
proof -
  have inv: "ApproxTopHoldersPct 1 2 ''0xabc'' (VNum (Fin 18)) (Fin 200) (Fin 5) (Fin 500)
     \<in> set (fst (analyze demo_services (no_query\<lparr>q_token := Some ''0xabc''\<rparr>)))"
    by (simp add: demo_analyze_base)
  have thr: "approxTopHoldersPct demo_services 1 2 ''0xabc'' (VNum (Fin 18)) (Fin 200) (Fin 5)
       (Fin 500) = Inl (JsError ''rate limited'')"
    by (simp add: demo_services_def)
  from inv thr
    estimator_failure_is_isolated [of 1 2 "''0xabc''" "VNum (Fin 18)" "Fin 200" "Fin 5" "Fin 500"
      demo_services "no_query\<lparr>q_token := Some ''0xabc''\<rparr>" "JsError ''rate limited''"]
  show ?thesis by blast
qed

text \<open>
  \<^verbatim>\<open>toLowerCase\<close> leaves no capital letter, so of the property names of
  \<^verbatim>\<open>Object.prototype\<close> a chain key can only be \<^verbatim>\<open>constructor\<close> or \<^verbatim>\<open>__proto__\<close>.
\<close>

lemma lower_char_not_capital:
  "\<not> (65 \<le> (of_char (lower_char c) :: nat) \<and> (of_char (lower_char c) :: nat) \<le> 90)"
  by (auto simp: lower_char_def Let_def)

lemma toLowerCase_no_capital:
  "c \<in> set (toLowerCase s) \<Longrightarrow> \<not> (65 \<le> (of_char c :: nat) \<and> (of_char c :: nat) \<le> 90)"
  using lower_char_not_capital by (auto simp: toLowerCase_def)

lemma toLowerCase_neq:
  "c \<in> set k \<Longrightarrow> 65 \<le> (of_char c :: nat) \<Longrightarrow> (of_char c :: nat) \<le> 90 \<Longrightarrow> toLowerCase s \<noteq> k"
  using toLowerCase_no_capital by blast

lemma inherited_lower_keys:
  "object_prototype_key (toLowerCase s)
     \<longleftrightarrow> toLowerCase s = ''constructor'' \<or> toLowerCase s = ''__proto__''"
proof -
  have 1: "toLowerCase s \<noteq> ''__defineGetter__''"
    by (rule toLowerCase_neq [of "CHR ''G''"]) simp_all
  have 2: "toLowerCase s \<noteq> ''__defineSetter__''"
    by (rule toLowerCase_neq [of "CHR ''S''"]) simp_all
  have 3: "toLowerCase s \<noteq> ''hasOwnProperty''"
    by (rule toLowerCase_neq [of "CHR ''O''"]) simp_all
  have 4: "toLowerCase s \<noteq> ''__lookupGetter__''"
    by (rule toLowerCase_neq [of "CHR ''G''"]) simp_all
  have 5: "toLowerCase s \<noteq> ''__lookupSetter__''"
    by (rule toLowerCase_neq [of "CHR ''S''"]) simp_all
  have 6: "toLowerCase s \<noteq> ''isPrototypeOf''"
    by (rule toLowerCase_neq [of "CHR ''P''"]) simp_all
  have 7: "toLowerCase s \<noteq> ''propertyIsEnumerable''"
    by (rule toLowerCase_neq [of "CHR ''I''"]) simp_all
  have 8: "toLowerCase s \<noteq> ''toString''"
    by (rule toLowerCase_neq [of "CHR ''S''"]) simp_all
  have 9: "toLowerCase s \<noteq> ''valueOf''"
    by (rule toLowerCase_neq [of "CHR ''O''"]) simp_all
  have 10: "toLowerCase s \<noteq> ''toLocaleString''"
    by (rule toLowerCase_neq [of "CHR ''L''"]) simp_all
  from 1 2 3 4 5 6 7 8 9 10 show ?thesis
    by (auto simp: object_prototype_key_def)
qed

lemma chains_at_absent:
  "getChains sv (chainKey_of q) = None \<Longrightarrow> chainKey_of q \<noteq> ''constructor'' \<Longrightarrow>
   chainKey_of q \<noteq> ''__proto__'' \<Longrightarrow> chains_at sv (chainKey_of q) = NoValue"
  by (simp add: chains_at_def chainKey_of_def inherited_lower_keys)

lemma analyze_unknown_chain:
  "chains_at sv (chainKey_of q) = NoValue \<Longrightarrow> analyze sv q = ([], failure 400 ''Unknown chain'')"
  by (simp add: analyze_def Let_def)

lemma graph_unknown_chain:
  "chains_at sv (chainKey_of q) = NoValue \<Longrightarrow> graph sv q = ([], failure 400 ''Unknown chain'')"
  by (simp add: graph_def Let_def)

lemma jeeter_unknown_chain:
  "getChains sv (chainKey_of q) = None \<Longrightarrow> jeeter sv q = ([], failure 400 ''EVM only'')"
  by (simp add: jeeter_def chains_at_def Let_def)

text \<open>
  C7, as stated, fails on \<^verbatim>\<open>/jeeter\<close>: its single guard
  \<^verbatim>\<open>if (!chain || chain.kind !== "evm")\<close> answers an unknown chain with the error
  \<^verbatim>\<open>"EVM only"\<close>, not \<^verbatim>\<open>"Unknown chain"\<close>. It also fails on \<^verbatim>\<open>/analyze\<close> for the
  key \<^verbatim>\<open>constructor\<close>, which is absent from the registry but for which
  \<^verbatim>\<open>chains[chainKey]\<close> is truthy: the answer is \<^verbatim>\<open>"Unsupported chain kind"\<close>.
\<close>

theorem jeeter_unknown_chain_counterexample:
  "getChains demo_services (chainKey_of (no_query\<lparr>q_chain := Some ''unknown'', q_token := Some ''0xabc''\<rparr>))
     = None
   \<and> jeeter demo_services (no_query\<lparr>q_chain := Some ''unknown'', q_token := Some ''0xabc''\<rparr>)
       = ([], \<lparr>status = 400, body = VObj [(''ok'', VBool False), (''error'', VStr ''EVM only'')]\<rparr>)
   \<and> VStr ''EVM only'' \<noteq> VStr ''Unknown chain''
   \<and> getChains demo_services
        (chainKey_of (no_query\<lparr>q_chain := Some ''constructor'', q_token := Some ''0xabc''\<rparr>))
       = None
   \<and> analyze demo_services (no_query\<lparr>q_chain := Some ''constructor'', q_token := Some ''0xabc''\<rparr>)
       = ([], \<lparr>status = 400,
               body = VObj [(''ok'', VBool False), (''error'', VStr ''Unsupported chain kind'')]\<rparr>)
   \<and> VStr ''Unsupported chain kind'' \<noteq> VStr ''Unknown chain''"
  by (simp add: handler_eval)

text \<open>
  C7, amended: a request whose chain key is absent from the registry yields HTTP 400 with
  body \<^verbatim>\<open>{ok: false, error: "EVM only"}\<close> on \<^verbatim>\<open>/jeeter\<close>; on \<^verbatim>\<open>/analyze\<close> and
  \<^verbatim>\<open>/graph\<close> it yields HTTP 400 with body \<^verbatim>\<open>{ok: false, error: "Unknown chain"}\<close>
  when the key is moreover neither \<^verbatim>\<open>constructor\<close> nor \<^verbatim>\<open>__proto__\<close>. In each case no
  service is called. (What \<^verbatim>\<open>/analyze\<close> and \<^verbatim>\<open>/graph\<close> answer for those two keys is
  left open here.)
\<close>

theorem unknown_chain_responses:
  "getChains sv (chainKey_of q) = None \<Longrightarrow>
   jeeter sv q = ([], \<lparr>status = 400, body = VObj [(''ok'', VBool False), (''error'', VStr ''EVM only'')]\<rparr>)
   \<and> (chainKey_of q \<noteq> ''constructor'' \<and> chainKey_of q \<noteq> ''__proto__'' \<longrightarrow>
        analyze sv q = ([], \<lparr>status = 400, body = VObj [(''ok'', VBool False), (''error'', VStr ''Unknown chain'')]\<rparr>)
        \<and> graph sv q = ([], \<lparr>status = 400, body = VObj [(''ok'', VBool False), (''error'', VStr ''Unknown chain'')]\<rparr>))"
  by (simp add: analyze_unknown_chain graph_unknown_chain jeeter_unknown_chain chains_at_absent
        failure_def)

theorem unknown_chain_responses_witness:
  "getChains demo_services (chainKey_of (no_query\<lparr>q_chain := Some ''unknown'', q_token := Some ''0xabc''\<rparr>)) = None
   \<and> chainKey_of (no_query\<lparr>q_chain := Some ''unknown'', q_token := Some ''0xabc''\<rparr>) \<noteq> ''constructor''
   \<and> chainKey_of (no_query\<lparr>q_chain := Some ''unknown'', q_token := Some ''0xabc''\<rparr>) \<noteq> ''__proto__''
   \<and> analyze demo_services (no_query\<lparr>q_chain := Some ''unknown'', q_token := Some ''0xabc''\<rparr>)
       = ([], \<lparr>status = 400, body = VObj [(''ok'', VBool False), (''error'', VStr ''Unknown chain'')]\<rparr>)
   \<and> graph demo_services (no_query\<lparr>q_chain := Some ''unknown'', q_token := Some ''0xabc''\<rparr>)
       = ([], \<lparr>status = 400, body = VObj [(''ok'', VBool False), (''error'', VStr ''Unknown chain'')]\<rparr>)
   \<and> jeeter demo_services (no_query\<lparr>q_chain := Some ''unknown'', q_token := Some ''0xabc''\<rparr>)
       = ([], \<lparr>status = 400, body = VObj [(''ok'', VBool False), (''error'', VStr ''EVM only'')]\<rparr>)"
proof -
  let ?q = "no_query\<lparr>q_chain := Some ''unknown'', q_token := Some ''0xabc''\<rparr>"
  have k: "chainKey_of ?q = ''unknown''" by (simp add: handler_eval)
  have h: "getChains demo_services (chainKey_of ?q) = None"
    by (simp add: k demo_services_def demo_chains_def)
  have n: "chainKey_of ?q \<noteq> ''constructor''" "chainKey_of ?q \<noteq> ''__proto__''"
    by (simp_all add: k)
  from h n unknown_chain_responses [OF h] show ?thesis by blast
qed

text \<open>
  C10: in \<^verbatim>\<open>/analyze\<close> and \<^verbatim>\<open>/graph\<close> the unknown-chain check is meant to come before
  the missing-identifier check, and it does whenever the lookup \<^verbatim>\<open>chains[chainKey]\<close>
  yields nothing (\<open>analyze_unknown_chain\<close>, \<open>graph_unknown_chain\<close>). The code misses the keys
  that every object inherits: \<^verbatim>\<open>constructor\<close> is absent from the registry, yet
  \<^verbatim>\<open>chains["constructor"]\<close> is truthy, the test \<^verbatim>\<open>!chain\<close> of lines 54 and 128 is passed,
  and with an empty token (and center) the answer is \<^verbatim>\<open>"Missing token/mint"\<close> and
  \<^verbatim>\<open>"Missing token/center"\<close>, not \<^verbatim>\<open>"Unknown chain"\<close>. The code evaluated at that input:
\<close>

theorem inherited_key_passes_unknown_chain_check:
  "getChains demo_services (chainKey_of (no_query\<lparr>q_chain := Some ''constructor''\<rparr>)) = None
   \<and> token_of (no_query\<lparr>q_chain := Some ''constructor''\<rparr>) = []
   \<and> center_of (no_query\<lparr>q_chain := Some ''constructor''\<rparr>) = []
   \<and> analyze demo_services (no_query\<lparr>q_chain := Some ''constructor''\<rparr>)
       = ([], \<lparr>status = 400,
               body = VObj [(''ok'', VBool False), (''error'', VStr ''Missing token/mint'')]\<rparr>)
   \<and> graph demo_services (no_query\<lparr>q_chain := Some ''constructor''\<rparr>)
       = ([], \<lparr>status = 400,
               body = VObj [(''ok'', VBool False), (''error'', VStr ''Missing token/center'')]\<rparr>)"
  by (simp add: handler_eval)

text \<open>
  C6, as stated, fails: line 106 is \<^verbatim>\<open>return res.json(out)\<close>, nothing is merged into the
  analyzer's result. When that result has no \<^verbatim>\<open>ok\<close> property, the body has none either.
\<close>

theorem solana_analysis_counterexample:
  "getChains demo_services (chainKey_of (no_query\<lparr>q_chain := Some ''solana'', q_token := Some ''mint1''\<rparr>))
     = Some \<lparr>kind = ''solana'', rpc = ''https://rpc.sol'', explorer = ''https://solscan.io'',
              scanKey = VUndef\<rparr>
   \<and> analyzeSolMint demo_services ''https://rpc.sol'' ''mint1'' ''https://solscan.io'' []
       = Inr (VObj [(''facts'', VObj [(''mint'', VStr ''mint1'')])])
   \<and> snd (analyze demo_services (no_query\<lparr>q_chain := Some ''solana'', q_token := Some ''mint1''\<rparr>))
       = \<lparr>status = 200, body = VObj [(''facts'', VObj [(''mint'', VStr ''mint1'')])]\<rparr>
   \<and> field (VObj [(''facts'', VObj [(''mint'', VStr ''mint1'')])]) ''ok'' = VUndef"
  by (simp add: handler_eval)

text \<open>
  C6, amended: for an \<^verbatim>\<open>/analyze\<close> request with a token on a chain of kind
  \<^verbatim>\<open>solana\<close>, when the analyzer returns, its result is the body of the 200 response, exactly
  as returned; the handler adds no field, so the body has \<^verbatim>\<open>ok: true\<close> exactly when
  the analyzer's result has.
\<close>

theorem solana_analysis_verbatim:
  "getChains sv (chainKey_of q) = Some c \<Longrightarrow> kind c = ''solana'' \<Longrightarrow> token_of q \<noteq> [] \<Longrightarrow>
   analyzeSolMint sv (rpc c) (token_of q) (explorer c) (BIRDEYE sv) = Inr out \<Longrightarrow>
   analyze sv q = ([AnalyzeSolMint (rpc c) (token_of q) (explorer c) (BIRDEYE sv)],
                   \<lparr>status = 200, body = out\<rparr>)
   \<and> field (body (snd (analyze sv q))) ''ok'' = field out ''ok''"
  by (simp add: analyze_def chains_at_def Let_def json_def)

theorem solana_analysis_verbatim_witness:
  "getChains demo_services (chainKey_of (no_query\<lparr>q_chain := Some ''solana'', q_token := Some ''mint1''\<rparr>))
     = Some \<lparr>kind = ''solana'', rpc = ''https://rpc.sol'', explorer = ''https://solscan.io'',
              scanKey = VUndef\<rparr>
   \<and> token_of (no_query\<lparr>q_chain := Some ''solana'', q_token := Some ''mint1''\<rparr>) = ''mint1''
   \<and> analyze demo_services (no_query\<lparr>q_chain := Some ''solana'', q_token := Some ''mint1''\<rparr>)
       = ([AnalyzeSolMint ''https://rpc.sol'' ''mint1'' ''https://solscan.io'' []],
          \<lparr>status = 200, body = VObj [(''facts'', VObj [(''mint'', VStr ''mint1'')])]\<rparr>)"
proof -
  let ?q = "no_query\<lparr>q_chain := Some ''solana'', q_token := Some ''mint1''\<rparr>"
  let ?c = "\<lparr>kind = ''solana'', rpc = ''https://rpc.sol'', explorer = ''https://solscan.io'',
              scanKey = VUndef\<rparr>"
  have a: "getChains demo_services (chainKey_of ?q) = Some ?c" by (simp add: handler_eval)
  have b: "kind ?c = ''solana''" by simp
  have t: "token_of ?q = ''mint1''" by (simp add: handler_eval)
  have c: "token_of ?q \<noteq> []" by (simp add: t)
  have d: "analyzeSolMint demo_services (rpc ?c) (token_of ?q) (explorer ?c) (BIRDEYE demo_services)
             = Inr (VObj [(''facts'', VObj [(''mint'', VStr ''mint1'')])])"
    by (simp add: t demo_services_def)
  from solana_analysis_verbatim [OF a b c d] a t show ?thesis
    by (simp add: demo_services_def)
qed

lemma analyze_evm_200:
  assumes c: "getChains sv (chainKey_of q) = Some c" "kind c = ''evm''"
    and ok: "status (snd (analyze sv q)) = 200"
  shows "\<exists>m0. token_of q \<noteq> [] \<and> readErc20Meta sv (rpc c) (token_of q) = Inr m0
          \<and> snd (analyze sv q) =
              json (analysis_body (chainKey_of q) (token_of q) c
                (snd (name_fallback sv (token_of q) m0))
                (snd (top_holders sv (fast_of q) (snd (name_fallback sv (token_of q) m0))
                        (token_of q) (blocks_of q) (span_of q) (delay_of q)))
                (fst (snd (contract_source sv (chainKey_of q) (token_of q) c)))
                (snd (snd (contract_source sv (chainKey_of q) (token_of q) c)))
                (fast_of q) (blocks_of q) (span_of q) (delay_of q))"
proof -
  from ok c have t: "token_of q \<noteq> []"
    by (auto simp: analyze_status split: if_splits)
  from ok c t obtain m0 where m0: "readErc20Meta sv (rpc c) (token_of q) = Inr m0"
    by (cases "readErc20Meta sv (rpc c) (token_of q)") (auto simp: analyze_status)
  from c t m0 show ?thesis
    by (simp add: analyze_def chains_at_def Let_def analyze_evm_read_ok)
qed

lemma fast_of_iff: "fast_of q = (q_fast q = Some ''1'')"
  by (cases "q_fast q") (auto simp: fast_of_def or_default_def)

text \<open>
  C4, as stated, fails for a request that is not answered with an analysis: on an EVM chain
  with \<^verbatim>\<open>fast=1\<close> and no token, the response is the 400 error
  \<^verbatim>\<open>"Missing token/mint"\<close>, which has neither \<^verbatim>\<open>mode\<close> nor \<^verbatim>\<open>holders\<close>.
\<close>

theorem fast_mode_counterexample:
  "getChains demo_services (chainKey_of (no_query\<lparr>q_fast := Some ''1''\<rparr>))
     = Some \<lparr>kind = ''evm'', rpc = ''https://rpc.base'', explorer = ''https://basescan.org'',
              scanKey = VStr ''K''\<rparr>
   \<and> fast_of (no_query\<lparr>q_fast := Some ''1''\<rparr>)
   \<and> analyze demo_services (no_query\<lparr>q_fast := Some ''1''\<rparr>)
       = ([], \<lparr>status = 400,
               body = VObj [(''ok'', VBool False), (''error'', VStr ''Missing token/mint'')]\<rparr>)
   \<and> field (VObj [(''ok'', VBool False), (''error'', VStr ''Missing token/mint'')]) ''mode''
       = VUndef
   \<and> field (VObj [(''ok'', VBool False), (''error'', VStr ''Missing token/mint'')]) ''holders''
       = VUndef"
  by (simp add: handler_eval)

text \<open>
  C4, amended: \<^verbatim>\<open>fast\<close> is true iff the raw query value is exactly \<^verbatim>\<open>"1"\<close>. For any
  \<^verbatim>\<open>/analyze\<close> request on an EVM chain with \<^verbatim>\<open>fast=1\<close> the top-holder estimator is
  never invoked; and whenever such a request is answered with status 200, the response has
  \<^verbatim>\<open>holders.top10Pct === null\<close> and \<^verbatim>\<open>mode\<close> \<^verbatim>\<open>"fast"\<close>, while with any other
  \<^verbatim>\<open>fast\<close> value a 200 response has \<^verbatim>\<open>mode\<close> \<^verbatim>\<open>"standard"\<close>.
\<close>

theorem fast_skips_estimator:
  "getChains sv (chainKey_of q) = Some c \<Longrightarrow> kind c = ''evm'' \<Longrightarrow>
   fast_of q = (q_fast q = Some ''1'')
   \<and> (fast_of q \<longrightarrow> ApproxTopHoldersPct p i t dc b s d \<notin> set (fst (analyze sv q)))
   \<and> (status (snd (analyze sv q)) = 200 \<longrightarrow>
        field (body (snd (analyze sv q))) ''mode''
          = VStr (if fast_of q then ''fast'' else ''standard'')
        \<and> (fast_of q \<longrightarrow>
             field (field (field (body (snd (analyze sv q))) ''facts'') ''holders'') ''top10Pct''
               = VNull))"
proof -
  assume c: "getChains sv (chainKey_of q) = Some c" "kind c = ''evm''"
  have a: "fast_of q \<longrightarrow> ApproxTopHoldersPct p i t dc b s d \<notin> set (fst (analyze sv q))"
    using analyze_invoked_estimator [of p i t dc b s d sv q] by blast
  have b: "field (body (snd (analyze sv q))) ''mode''
          = VStr (if fast_of q then ''fast'' else ''standard'')
        \<and> (fast_of q \<longrightarrow>
             field (field (field (body (snd (analyze sv q))) ''facts'') ''holders'') ''top10Pct''
               = VNull)"
    if ok: "status (snd (analyze sv q)) = 200"
  proof -
    from analyze_evm_200 [OF c ok] obtain m0 where
      r: "snd (analyze sv q) =
              json (analysis_body (chainKey_of q) (token_of q) c
                (snd (name_fallback sv (token_of q) m0))
                (snd (top_holders sv (fast_of q) (snd (name_fallback sv (token_of q) m0))
                        (token_of q) (blocks_of q) (span_of q) (delay_of q)))
                (fst (snd (contract_source sv (chainKey_of q) (token_of q) c)))
                (snd (snd (contract_source sv (chainKey_of q) (token_of q) c)))
                (fast_of q) (blocks_of q) (span_of q) (delay_of q))"
      by blast
    show ?thesis
      by (simp add: r json_def analysis_body_fields top_holders_fast)
  qed
  from a b fast_of_iff show ?thesis by blast
qed

lemma demo_analyze_fast:
  "analyze demo_services (no_query\<lparr>q_token := Some ''0xabc'', q_fast := Some ''1''\<rparr>) =
     ([ReadErc20Meta ''https://rpc.base'' ''0xabc'',
       GetContractSource ''base'' ''0xabc'' (VStr ''K'')],
      json (analysis_body ''base'' ''0xabc''
              \<lparr>kind = ''evm'', rpc = ''https://rpc.base'', explorer = ''https://basescan.org'',
               scanKey = VStr ''K''\<rparr>
              demo_meta VNull (VBool True) VNull True (Fin 200) (Fin 5) (Fin 500)))"
  by (simp add: handler_eval)

theorem fast_skips_estimator_witness:
  "getChains demo_services
      (chainKey_of (no_query\<lparr>q_token := Some ''0xabc'', q_fast := Some ''1''\<rparr>))
     = Some \<lparr>kind = ''evm'', rpc = ''https://rpc.base'', explorer = ''https://basescan.org'',
              scanKey = VStr ''K''\<rparr>
   \<and> fast_of (no_query\<lparr>q_token := Some ''0xabc'', q_fast := Some ''1''\<rparr>)
   \<and> status (snd (analyze demo_services
        (no_query\<lparr>q_token := Some ''0xabc'', q_fast := Some ''1''\<rparr>))) = 200
   \<and> field (body (snd (analyze demo_services
        (no_query\<lparr>q_token := Some ''0xabc'', q_fast := Some ''1''\<rparr>)))) ''mode'' = VStr ''fast''
   \<and> field (field (field (body (snd (analyze demo_services
        (no_query\<lparr>q_token := Some ''0xabc'', q_fast := Some ''1''\<rparr>)))) ''facts'') ''holders'')
        ''top10Pct'' = VNull
   \<and> ApproxTopHoldersPct 1 2 ''0xabc'' (VNum (Fin 18)) (Fin 200) (Fin 5) (Fin 500)
       \<notin> set (fst (analyze demo_services
            (no_query\<lparr>q_token := Some ''0xabc'', q_fast := Some ''1''\<rparr>)))"
proof -
  let ?q = "no_query\<lparr>q_token := Some ''0xabc'', q_fast := Some ''1''\<rparr>"
  let ?c = "\<lparr>kind = ''evm'', rpc = ''https://rpc.base'', explorer = ''https://basescan.org'',
              scanKey = VStr ''K''\<rparr>"
  have a: "getChains demo_services (chainKey_of ?q) = Some ?c" by (simp add: handler_eval)
  have b: "kind ?c = ''evm''" by simp
  have f: "fast_of ?q" by (simp add: handler_eval)
  have s: "status (snd (analyze demo_services ?q)) = 200"
    by (simp add: demo_analyze_fast json_def)
  from fast_skips_estimator [OF a b, of 1 2 "''0xabc''" "VNum (Fin 18)" "Fin 200" "Fin 5" "Fin 500"]
    a f s
  show ?thesis by simp
qed

lemma windowed_body_fields:
  "field (windowed_body r b s d) ''windowBlocks'' = VNum b
   \<and> field (windowed_body r b s d) ''span'' = VNum s
   \<and> field (windowed_body r b s d) ''delay'' = VNum d"
  by (simp add: windowed_body_def field_VObj map_of_set_prop)

lemma graph_evm_body:
  "readErc20Meta sv (rpc c) t = Inr m \<Longrightarrow>
   \<exists>r. snd (graph_evm sv t ce c b s d) = json (windowed_body r b s d)"
  by (cases "buildEvmGraph sv (provider m) t ce b s d") (auto simp: graph_evm_def)

text \<open>
  C5, as stated, fails on a Solana chain: line 145 answers \<^verbatim>\<open>{ ok: true, ...g }\<close>, without
  \<^verbatim>\<open>windowBlocks\<close>, \<^verbatim>\<open>span\<close> and \<^verbatim>\<open>delay\<close> (the Solana builder is not given them).
\<close>

theorem solana_graph_echo_counterexample:
  "getChains demo_services (chainKey_of (no_query\<lparr>q_chain := Some ''solana'',
       q_token := Some ''mint1'', q_center := Some ''11111111111111111111111111111111'',
       q_window := Some ''50''\<rparr>))
     = Some \<lparr>kind = ''solana'', rpc = ''https://rpc.sol'', explorer = ''https://solscan.io'',
              scanKey = VUndef\<rparr>
   \<and> snd (graph demo_services (no_query\<lparr>q_chain := Some ''solana'',
       q_token := Some ''mint1'', q_center := Some ''11111111111111111111111111111111'',
       q_window := Some ''50''\<rparr>))
       = \<lparr>status = 200,
          body = VObj [(''ok'', VBool True), (''nodes'', VArr []), (''links'', VArr [])]\<rparr>
   \<and> field (VObj [(''ok'', VBool True), (''nodes'', VArr []), (''links'', VArr [])])
        ''windowBlocks'' = VUndef
   \<and> field (VObj [(''ok'', VBool True), (''nodes'', VArr []), (''links'', VArr [])])
        ''span'' = VUndef
   \<and> field (VObj [(''ok'', VBool True), (''nodes'', VArr []), (''links'', VArr [])])
        ''delay'' = VUndef"
  by (simp add: handler_eval)

text \<open>
  C5, amended: every 200 response of \<^verbatim>\<open>/graph\<close> on an EVM chain echoes the effective
  \<^verbatim>\<open>windowBlocks\<close>, \<^verbatim>\<open>span\<close> and \<^verbatim>\<open>delay\<close> alongside the graph; a 200 response on
  any other chain is on a Solana chain and is the Solana builder's result merged with
  \<^verbatim>\<open>ok: true\<close>, with no window value added.
\<close>

theorem graph_echo:
  "getChains sv (chainKey_of q) = Some c \<Longrightarrow> status (snd (graph sv q)) = 200 \<Longrightarrow>
   (kind c = ''evm'' \<longrightarrow>
      field (body (snd (graph sv q))) ''windowBlocks'' = VNum (blocks_of q)
      \<and> field (body (snd (graph sv q))) ''span'' = VNum (span_of q)
      \<and> field (body (snd (graph sv q))) ''delay'' = VNum (delay_of q))
   \<and> (kind c \<noteq> ''evm'' \<longrightarrow>
      kind c = ''solana''
      \<and> (\<exists>g. buildSolGraph sv (token_of q) (center_of q) (BIRDEYE sv) = Inr g
              \<and> body (snd (graph sv q)) = VObj (spread g [(''ok'', VBool True)])))"
proof -
  assume c: "getChains sv (chainKey_of q) = Some c" and ok: "status (snd (graph sv q)) = 200"
  from ok c have tc: "token_of q \<noteq> []" "center_of q \<noteq> []"
    by (auto simp: graph_status split: if_splits)
  have evm: "field (body (snd (graph sv q))) ''windowBlocks'' = VNum (blocks_of q)
      \<and> field (body (snd (graph sv q))) ''span'' = VNum (span_of q)
      \<and> field (body (snd (graph sv q))) ''delay'' = VNum (delay_of q)"
    if k: "kind c = ''evm''"
  proof -
    from ok c tc k obtain m where m: "readErc20Meta sv (rpc c) (token_of q) = Inr m"
      by (cases "readErc20Meta sv (rpc c) (token_of q)") (auto simp: graph_status)
    from graph_evm_body [OF m] obtain r where
      "snd (graph_evm sv (token_of q) (center_of q) c (blocks_of q) (span_of q) (delay_of q))
         = json (windowed_body r (blocks_of q) (span_of q) (delay_of q))"
      by blast
    with c tc k have "snd (graph sv q) = json (windowed_body r (blocks_of q) (span_of q) (delay_of q))"
      by (simp add: graph_def chains_at_def Let_def)
    then show ?thesis by (simp add: json_def windowed_body_fields)
  qed
  have sol: "kind c = ''solana''
      \<and> (\<exists>g. buildSolGraph sv (token_of q) (center_of q) (BIRDEYE sv) = Inr g
              \<and> body (snd (graph sv q)) = VObj (spread g [(''ok'', VBool True)]))"
    if k: "kind c \<noteq> ''evm''"
  proof -
    from ok c tc k have ks: "kind c = ''solana''" and l: "looksLikeSolAddress sv (center_of q)"
      by (auto simp: graph_status split: if_splits)
    from ok c tc k ks l obtain g where
      g: "buildSolGraph sv (token_of q) (center_of q) (BIRDEYE sv) = Inr g"
      by (cases "buildSolGraph sv (token_of q) (center_of q) (BIRDEYE sv)")
         (auto simp: graph_status)
    from c tc k ks l g have "body (snd (graph sv q)) = VObj (spread g [(''ok'', VBool True)])"
      by (simp add: graph_def chains_at_def Let_def json_def)
    with ks g show ?thesis by blast
  qed
  from evm sol show ?thesis by blast
qed

theorem graph_echo_witness:
  "status (snd (graph demo_services (no_query\<lparr>q_token := Some ''0xabc'',
       q_center := Some ''0xdef'', q_window := Some ''50''\<rparr>))) = 200
   \<and> field (body (snd (graph demo_services (no_query\<lparr>q_token := Some ''0xabc'',
       q_center := Some ''0xdef'', q_window := Some ''50''\<rparr>)))) ''windowBlocks'' = VNum (Fin 50)
   \<and> status (snd (graph demo_services (no_query\<lparr>q_chain := Some ''solana'',
       q_token := Some ''mint1'', q_center := Some ''11111111111111111111111111111111''\<rparr>))) = 200
   \<and> body (snd (graph demo_services (no_query\<lparr>q_chain := Some ''solana'',
       q_token := Some ''mint1'', q_center := Some ''11111111111111111111111111111111''\<rparr>)))
      = VObj [(''ok'', VBool True), (''nodes'', VArr []), (''links'', VArr [])]"
proof -
  let ?q = "no_query\<lparr>q_token := Some ''0xabc'', q_center := Some ''0xdef'',
              q_window := Some ''50''\<rparr>"
  let ?c = "\<lparr>kind = ''evm'', rpc = ''https://rpc.base'', explorer = ''https://basescan.org'',
              scanKey = VStr ''K''\<rparr>"
  let ?q' = "no_query\<lparr>q_chain := Some ''solana'', q_token := Some ''mint1'',
              q_center := Some ''11111111111111111111111111111111''\<rparr>"
  let ?c' = "\<lparr>kind = ''solana'', rpc = ''https://rpc.sol'', explorer = ''https://solscan.io'',
              scanKey = VUndef\<rparr>"
  have a: "getChains demo_services (chainKey_of ?q) = Some ?c" by (simp add: handler_eval)
  have s: "status (snd (graph demo_services ?q)) = 200" by (simp add: handler_eval)
  have n: "js_Number (Some ''50'') = Fin 50" by (simp add: num_eval)
  have b: "blocks_of ?q = Fin 50" by (simp add: blocks_of_def num_def no_query_def n)
  have a': "getChains demo_services (chainKey_of ?q') = Some ?c'" by (simp add: handler_eval)
  have s': "status (snd (graph demo_services ?q')) = 200" by (simp add: handler_eval)
  have g: "buildSolGraph demo_services (token_of ?q') (center_of ?q') (BIRDEYE demo_services)
             = Inr (VObj [(''nodes'', VArr []), (''links'', VArr [])])"
    by (simp add: demo_services_def)
  from graph_echo [OF a s] b have 1:
    "field (body (snd (graph demo_services ?q))) ''windowBlocks'' = VNum (Fin 50)"
    by simp
  from graph_echo [OF a' s'] g have 2:
    "body (snd (graph demo_services ?q'))
       = VObj [(''ok'', VBool True), (''nodes'', VArr []), (''links'', VArr [])]"
    by (simp add: spread_def)
  from s 1 s' 2 show ?thesis by blast
qed

text \<open>
  C8, as stated, fails when the token (or the center) is missing: the check of line 129 comes
  first and answers \<^verbatim>\<open>"Missing token/center"\<close>. The predicate is applied to the trimmed,
  lower-cased \<^verbatim>\<open>center\<close>.
\<close>

theorem bad_sol_address_counterexample:
  "getChains demo_services
      (chainKey_of (no_query\<lparr>q_chain := Some ''solana'', q_center := Some ''not-an-address''\<rparr>))
     = Some \<lparr>kind = ''solana'', rpc = ''https://rpc.sol'', explorer = ''https://solscan.io'',
              scanKey = VUndef\<rparr>
   \<and> center_of (no_query\<lparr>q_chain := Some ''solana'', q_center := Some ''not-an-address''\<rparr>)
       = ''not-an-address''
   \<and> \<not> looksLikeSolAddress demo_services ''not-an-address''
   \<and> graph demo_services (no_query\<lparr>q_chain := Some ''solana'', q_center := Some ''not-an-address''\<rparr>)
       = ([], \<lparr>status = 400,
               body = VObj [(''ok'', VBool False), (''error'', VStr ''Missing token/center'')]\<rparr>)
   \<and> VStr ''Missing token/center'' \<noteq> VStr ''Bad Sol address''"
  by (simp add: handler_eval)

text \<open>
  C8, amended: for any \<^verbatim>\<open>/graph\<close> request on a chain of kind \<^verbatim>\<open>solana\<close> whose center
  fails the address predicate, the response is HTTP 400 and no service is called, the Solana
  graph builder included; when token and center are both non-empty the error is
  \<^verbatim>\<open>"Bad Sol address"\<close>.
\<close>

theorem bad_sol_address:
  "getChains sv (chainKey_of q) = Some c \<Longrightarrow> kind c = ''solana'' \<Longrightarrow>
   \<not> looksLikeSolAddress sv (center_of q) \<Longrightarrow>
   fst (graph sv q) = []
   \<and> status (snd (graph sv q)) = 400
   \<and> (token_of q \<noteq> [] \<and> center_of q \<noteq> [] \<longrightarrow>
        body (snd (graph sv q)) = VObj [(''ok'', VBool False), (''error'', VStr ''Bad Sol address'')])"
  by (simp add: graph_def chains_at_def Let_def failure_def)

theorem bad_sol_address_witness:
  "getChains demo_services (chainKey_of (no_query\<lparr>q_chain := Some ''solana'',
       q_token := Some ''mint1'', q_center := Some ''not-an-address''\<rparr>))
     = Some \<lparr>kind = ''solana'', rpc = ''https://rpc.sol'', explorer = ''https://solscan.io'',
              scanKey = VUndef\<rparr>
   \<and> \<not> looksLikeSolAddress demo_services (center_of (no_query\<lparr>q_chain := Some ''solana'',
       q_token := Some ''mint1'', q_center := Some ''not-an-address''\<rparr>))
   \<and> token_of (no_query\<lparr>q_chain := Some ''solana'',
       q_token := Some ''mint1'', q_center := Some ''not-an-address''\<rparr>) \<noteq> []
   \<and> center_of (no_query\<lparr>q_chain := Some ''solana'',
       q_token := Some ''mint1'', q_center := Some ''not-an-address''\<rparr>) \<noteq> []
   \<and> graph demo_services (no_query\<lparr>q_chain := Some ''solana'',
       q_token := Some ''mint1'', q_center := Some ''not-an-address''\<rparr>)
      = ([], \<lparr>status = 400,
              body = VObj [(''ok'', VBool False), (''error'', VStr ''Bad Sol address'')]\<rparr>)"
proof -
  let ?q = "no_query\<lparr>q_chain := Some ''solana'', q_token := Some ''mint1'',
              q_center := Some ''not-an-address''\<rparr>"
  let ?c = "\<lparr>kind = ''solana'', rpc = ''https://rpc.sol'', explorer = ''https://solscan.io'',
              scanKey = VUndef\<rparr>"
  have a: "getChains demo_services (chainKey_of ?q) = Some ?c" by (simp add: handler_eval)
  have k: "kind ?c = ''solana''" by simp
  have l: "\<not> looksLikeSolAddress demo_services (center_of ?q)" by (simp add: handler_eval)
  have t: "token_of ?q \<noteq> []" by (simp add: handler_eval)
  have ce: "center_of ?q \<noteq> []" by (simp add: handler_eval)
  from bad_sol_address [OF a k l] t ce
  have "graph demo_services ?q
      = ([], \<lparr>status = 400,
              body = VObj [(''ok'', VBool False), (''error'', VStr ''Bad Sol address'')]\<rparr>)"
    by (cases "graph demo_services ?q") (simp add: response.equality)
  with a l t ce show ?thesis by blast
qed















end
